theory Spec2Isabelle
  imports Main "HOL-Library.Word"
begin

section \<open>The public wrapper \<open>mio::basic_mmap\<close> of include/mio/mmap.hpp\<close>

text \<open>
  The class template \<open>basic_mmap<AccessMode, CharT>\<close> wraps one member
  \<open>impl_\<close> of type \<open>detail::basic_mmap<CharT>\<close> and forwards to it. The two template
  parameters become ordinary parameters of the model: the access mode, and
  \<open>sizeof(CharT)\<close> as a natural number (at least 1 for every C++ type).
\<close>

datatype access_mode = Read | Write

text \<open>
  \<open>size_type\<close> is declared in detail/basic_mmap.hpp; the factories of mmap.hpp pass
  \<open>int64_t\<close> values for it, so it is a 64-bit integer, modelled by its bit pattern.
  On the non-negative values that byte counts take, the logical shift used below and an
  arithmetic shift agree.
\<close>

type_synonym size_type = "64 word"

subsection \<open>Element counts and byte counts (mmap.hpp, lines 333 to 341)\<close>

text \<open>
  \<^verbatim>\<open>static size_type char_size(const size_type num_bytes) noexcept
  { return num_bytes >> (sizeof(CharT) - 1); }\<close>
\<close>

definition char_size :: "nat \<Rightarrow> size_type \<Rightarrow> size_type" where
  "char_size sizeof_CharT num_bytes = drop_bit (sizeof_CharT - 1) num_bytes"

text \<open>
  \<^verbatim>\<open>static size_type byte_size(const size_type num_bytes) noexcept
  { return num_bytes << (sizeof(CharT) - 1); }\<close>
\<close>

definition byte_size :: "nat \<Rightarrow> size_type \<Rightarrow> size_type" where
  "byte_size sizeof_CharT num_bytes = push_bit (sizeof_CharT - 1) num_bytes"

subsection \<open>Which members exist in which access mode (mmap.hpp, lines 125 to 294)\<close>

text \<open>
  One constructor per public member function of the class; the two overloads of an
  accessor that differ in the constness of \<open>*this\<close> are two members.
\<close>

datatype member =
    File_handle | Mapping_handle | Is_open | Empty
  | Size | Length | Mapped_length | Offset
  | Data_mutable | Data_const
  | Begin_mutable | Begin_const | Cbegin
  | End_mutable | End_const | Cend
  | Rbegin_mutable | Rbegin_const | Crbegin
  | Rend_mutable | Rend_const | Crend
  | Index_mutable | Index_const
  | Set_length | Set_offset | Map_path | Map_handle | Unmap | Swap | Sync

text \<open>
  A member is guarded when its declaration carries
  \<^verbatim>\<open>template<access_mode A = AccessMode,
    typename = typename std::enable_if<A == access_mode::write>::type>\<close>.
  In the source these are the non-const \<open>data\<close> (line 159), \<open>end\<close> (174),
  \<open>rbegin\<close> (181), \<open>rend\<close> (188) and \<open>sync\<close> (291). The non-const \<open>begin\<close>
  (line 169) and the non-const \<open>operator[]\<close> (line 200) are declared without it.
\<close>

fun write_guarded :: "member \<Rightarrow> bool" where
  "write_guarded Data_mutable = True"
| "write_guarded End_mutable = True"
| "write_guarded Rbegin_mutable = True"
| "write_guarded Rend_mutable = True"
| "write_guarded Sync = True"
| "write_guarded _ = False"

text \<open>
  A guarded member takes part in the overload resolution of a plain call \<open>m.f()\<close> only
  in write mode. The guard tests the defaulted template parameter \<open>A\<close>, so a call that
  names it, \<open>m.data<access_mode::write>()\<close>, passes the guard in either mode; such
  calls are outside this table.
\<close>

fun available :: "access_mode \<Rightarrow> member \<Rightarrow> bool" where
  "available Write m = True"
| "available Read m = (if write_guarded m then False else True)"

text \<open>
  The members whose declared return type is one of \<open>pointer\<close>, \<open>iterator\<close>,
  \<open>reverse_iterator\<close> or \<open>reference\<close>, the non-const views into the mapped bytes.
\<close>

fun returns_mutable_view :: "member \<Rightarrow> bool" where
  "returns_mutable_view Data_mutable = True"
| "returns_mutable_view Begin_mutable = True"
| "returns_mutable_view End_mutable = True"
| "returns_mutable_view Rbegin_mutable = True"
| "returns_mutable_view Rend_mutable = True"
| "returns_mutable_view Index_mutable = True"
| "returns_mutable_view _ = False"

subsection \<open>Errors and exceptions\<close>

text \<open>
  Modelled from the spec: the error values that the absent detail/basic_mmap
  implementation stores, one per entry of the spec's error taxonomy (section 7). The
  out-parameter
  \<open>std::error_code& error\<close> is a value of type \<open>errc option\<close>: \<open>None\<close> is the
  cleared error code (\<open>if(error)\<close> is false), \<open>Some e\<close> a set one.
\<close>

datatype errc =
    handle_open_failure | os_mapping_failure | size_query_failure
  | invalid_argument | sync_failure

type_synonym error_code = "errc option"

text \<open>
  What a \<open>throw\<close> expression of this repository throws: the \<open>std::error_code\<close>
  object itself (\<open>throw error;\<close> in the constructors), or a
  \<open>std::invalid_argument\<close> exception (the doc comment of
  \<open>set_length\<close>/\<open>set_offset\<close>).
\<close>

datatype thrown = Thrown_error_code errc | Thrown_invalid_argument

text \<open>\<open>std::error_code\<close> is a plain value class; \<open>std::invalid_argument\<close> derives
  from \<open>std::logic_error\<close> and so from \<open>std::exception\<close>.\<close>

fun derives_from_std_exception :: "thrown \<Rightarrow> bool" where
  "derives_from_std_exception (Thrown_error_code e) = False"
| "derives_from_std_exception Thrown_invalid_argument = True"

text \<open>
  How a call ends: it returns a value, or an exception propagates to the caller
  (\<open>Throws e x\<close>, with \<open>x\<close> what the call had built when the exception left it), or
  an exception reaches the boundary of a \<open>noexcept\<close> function and
  \<open>std::terminate\<close> ends the program.
\<close>

datatype 'a outcome = Returns 'a | Throws thrown 'a | Terminates

subsection \<open>The mapping primitive \<open>detail::basic_mmap<CharT>\<close>\<close>

text \<open>
  Modelled from the spec: the header detail/basic_mmap.hpp and its implementation, which
  declare and define the type of \<open>impl_\<close>, are not part of the sources at hand. The
  record follows the attributes of the spec's data model (section 3); lengths are the
  byte counts that the wrapper converts with \<open>char_size\<close> and \<open>byte_size\<close>.
  \<open>offset_bytes\<close> is what \<open>offset()\<close> reports, "the offset, relative to the file's
  start, at which the mapping was requested to be created" (doc comment of mmap.hpp,
  line 148).
\<close>

record mapped_region =
  data_ptr :: "nat option"
  length_bytes :: size_type
  mapped_length_bytes :: size_type
  offset_delta :: size_type
  offset_bytes :: size_type
  file_handle_of :: "int option"
  mapping_handle_of :: "int option"
  handle_is_internal :: bool

text \<open>Modelled from the spec: the state after default construction, "created in
  the unmapped state", a null data pointer and every size 0.\<close>

definition unmapped_region :: mapped_region where
  "unmapped_region =
     \<lparr>data_ptr = None, length_bytes = 0, mapped_length_bytes = 0, offset_delta = 0,
      offset_bytes = 0, file_handle_of = None, mapping_handle_of = None,
      handle_is_internal = False\<rparr>"

text \<open>
  Modelled from the spec: the external collaborators of section 6. The file-opening
  service and the size query answer with a handle or a size, or fail; the OS mapping call
  \<open>(handle, offset, length, access_mode)\<close> answers with the base address of the new
  mapping, or fails. \<open>granularity\<close> is the page allocation granularity and
  \<open>map_entire_file\<close> the sentinel of detail/basic_mmap.hpp, whose value the sources
  at hand do not give.
\<close>

record os =
  granularity :: nat
  map_entire_file :: size_type
  open_file :: "string \<Rightarrow> access_mode \<Rightarrow> int option"
  query_file_size :: "int \<Rightarrow> nat option"
  mmap_call :: "int \<Rightarrow> nat \<Rightarrow> nat \<Rightarrow> access_mode \<Rightarrow> nat option"

text \<open>
  Modelled from the spec: what the process holds in the operating system, the live
  mappings as (base address, length) and the file handles that the file-opening service
  opened for it and that are not closed yet.
\<close>

record kernel =
  live_mappings :: "(nat \<times> nat) list"
  open_handles :: "int list"

text \<open>Modelled from the spec: \<open>is_open\<close>, "whether a valid memory mapping has been
  created"; the data pointer is null exactly when unmapped.\<close>

definition impl_is_open :: "mapped_region \<Rightarrow> bool" where
  "impl_is_open s = (case data_ptr s of None \<Rightarrow> False | Some p \<Rightarrow> True)"

text \<open>Modelled from the spec: in the unmapped state "all size queries return
  0/empty".\<close>

definition impl_length :: "mapped_region \<Rightarrow> size_type" where
  "impl_length s = (if impl_is_open s then length_bytes s else 0)"

text \<open>Modelled from the spec: \<open>mapped_length\<close>, the "actual OS-mapped byte count", a
  size query like \<open>length\<close>.\<close>

definition impl_mapped_length :: "mapped_region \<Rightarrow> size_type" where
  "impl_mapped_length s = (if impl_is_open s then mapped_length_bytes s else 0)"

text \<open>Modelled from the spec: \<open>offset\<close>, the requested offset in bytes, a size query
  like \<open>length\<close>.\<close>

definition impl_offset :: "mapped_region \<Rightarrow> size_type" where
  "impl_offset s = (if impl_is_open s then offset_bytes s else 0)"


text \<open>Modelled from the spec: \<open>data\<close>, the "address of the first requested byte ...
  null when unmapped".\<close>

definition impl_data :: "mapped_region \<Rightarrow> nat option" where
  "impl_data s = data_ptr s"

text \<open>
  Modelled from the spec (section 4.1, the aligned region calculator, part of the absent
  detail/basic_mmap implementation): "aligned_os_offset = requested_offset_bytes -
  (requested_offset_bytes mod granularity)".
\<close>

definition aligned_os_offset :: "nat \<Rightarrow> nat \<Rightarrow> nat" where
  "aligned_os_offset g requested_offset = requested_offset - requested_offset mod g"

text \<open>Modelled from the spec (section 4.1): "offset_delta = requested_offset_bytes -
  aligned_os_offset".\<close>

definition offset_delta_of :: "nat \<Rightarrow> nat \<Rightarrow> nat" where
  "offset_delta_of g requested_offset = requested_offset - aligned_os_offset g requested_offset"

text \<open>Modelled from the spec (section 4.1): "os_map_length = requested_num_elements *
  element_size + offset_delta", the request given in bytes.\<close>

definition os_map_length :: "nat \<Rightarrow> nat \<Rightarrow> nat \<Rightarrow> nat" where
  "os_map_length g requested_offset requested_bytes =
     requested_bytes + offset_delta_of g requested_offset"

text \<open>
  Modelled from the spec (section 4.2): \<open>unmap\<close> "releases the OS mapping
  unconditionally if currently mapped" and is a no-op otherwise; it "closes the owned
  file handle only if it was opened internally". The instance is unmapped afterwards.
\<close>

definition impl_unmap :: "kernel \<Rightarrow> mapped_region \<Rightarrow> kernel \<times> mapped_region" where
  "impl_unmap k s =
     (case data_ptr s of
        None \<Rightarrow> (k, s)
      | Some p \<Rightarrow>
          (\<lparr>live_mappings =
              remove1 (p - unat (offset_delta s), unat (mapped_length_bytes s)) (live_mappings k),
            open_handles =
              (case file_handle_of s of
                 None \<Rightarrow> open_handles k
               | Some h \<Rightarrow> if handle_is_internal s then remove1 h (open_handles k)
                           else open_handles k)\<rparr>,
           unmapped_region))"

text \<open>
  Modelled from the spec (sections 4.1, 4.2, 4.3 and 7): \<open>map\<close> from a handle.
  \<^item> A request for 0 bytes creates no OS mapping; it is reported as an invalid argument
    (the spec's "invalid-argument (bad offset/length)"), the one reading under which
    "a zero-length mapping leaves the instance unmapped" and "a successful map leaves it
    mapped" hold together.
  \<^item> The file size is queried (a size-query failure), and an offset beyond it is an
    invalid argument.
  \<^item> The aligned region is computed; for the sentinel \<open>map_entire_file\<close> the OS
    mapping runs from the aligned offset to the end of the file.
  \<^item> The OS mapping call is issued; when it fails, so does \<open>map\<close>.
  \<^item> Every failure leaves kernel and instance as they were. Only on success is a
    previous mapping released and the new one installed, its data pointer at the first
    requested byte.
\<close>

definition impl_map_handle ::
  "os \<Rightarrow> access_mode \<Rightarrow> int \<Rightarrow> size_type \<Rightarrow> size_type \<Rightarrow> kernel \<Rightarrow> mapped_region
     \<Rightarrow> (kernel \<times> mapped_region) \<times> error_code" where
  "impl_map_handle sys mode handle offset num_bytes k s =
     (if num_bytes = 0 then ((k, s), Some invalid_argument)
      else (case query_file_size sys handle of
        None \<Rightarrow> ((k, s), Some size_query_failure)
      | Some file_size \<Rightarrow>
          if file_size < unat offset then ((k, s), Some invalid_argument)
          else
            let aligned = aligned_os_offset (granularity sys) (unat offset);
                delta = offset_delta_of (granularity sys) (unat offset);
                requested = (if num_bytes = map_entire_file sys
                             then file_size - unat offset else unat num_bytes);
                os_length = os_map_length (granularity sys) (unat offset) requested
            in (case mmap_call sys handle aligned os_length mode of
                  None \<Rightarrow> ((k, s), Some os_mapping_failure)
                | Some base \<Rightarrow>
                    (let k1 = fst (impl_unmap k s)
                     in ((k1\<lparr>live_mappings := (base, os_length) # live_mappings k1\<rparr>,
                          \<lparr>data_ptr = Some (base + delta),
                           length_bytes = of_nat requested,
                           mapped_length_bytes = of_nat os_length,
                           offset_delta = of_nat delta,
                           offset_bytes = offset,
                           file_handle_of = Some handle,
                           mapping_handle_of = Some handle,
                           handle_is_internal = False\<rparr>),
                         None)))))"

text \<open>
  Modelled from the spec (section 4.2): \<open>map\<close> from a path "opens the file if given a
  path (ownership acquired)", then maps from the handle. A handle opened here is closed
  again when the mapping fails, so that a failure leaves everything as it was.
\<close>

definition impl_map_path ::
  "os \<Rightarrow> access_mode \<Rightarrow> string \<Rightarrow> size_type \<Rightarrow> size_type \<Rightarrow> kernel \<Rightarrow> mapped_region
     \<Rightarrow> (kernel \<times> mapped_region) \<times> error_code" where
  "impl_map_path sys mode path offset num_bytes k s =
     (case open_file sys path mode of
        None \<Rightarrow> ((k, s), Some handle_open_failure)
      | Some handle \<Rightarrow>
          (case impl_map_handle sys mode handle offset num_bytes
                  (k\<lparr>open_handles := handle # open_handles k\<rparr>) s of
             ((k', s'), Some e) \<Rightarrow> ((k, s), Some e)
           | ((k', s'), None) \<Rightarrow> ((k', s'\<lparr>handle_is_internal := True\<rparr>), None)))"

text \<open>
  Modelled from the spec (section 4.3) and the doc comment of mmap.hpp, line 203:
  \<open>set_length\<close> "changes only the conceptual length" and "fails with an
  invalid-argument condition if new_length * element_size + offset_delta >
  mapped_length"; the failure is a \<open>std::invalid_argument\<close> exception. The argument is
  the byte count that the wrapper computed.
\<close>

definition impl_set_length :: "size_type \<Rightarrow> mapped_region \<Rightarrow> thrown + mapped_region" where
  "impl_set_length new_length_bytes s =
     (if unat (mapped_length_bytes s) < unat new_length_bytes + unat (offset_delta s)
      then Inl Thrown_invalid_argument
      else Inr (s\<lparr>length_bytes := new_length_bytes\<rparr>))"

text \<open>Modelled from the spec (section 4.3): \<open>set_offset\<close> is "analogous, bounded by
  mapped_length".\<close>

definition impl_set_offset :: "size_type \<Rightarrow> mapped_region \<Rightarrow> thrown + mapped_region" where
  "impl_set_offset new_offset_bytes s =
     (if unat (mapped_length_bytes s) < unat new_offset_bytes
      then Inl Thrown_invalid_argument
      else Inr (s\<lparr>offset_bytes := new_offset_bytes\<rparr>))"

text \<open>Modelled from the spec (section 4.2): "equality/ordering operators compare
  (data_pointer, mapped_length) pairs".\<close>

definition impl_eq :: "mapped_region \<Rightarrow> mapped_region \<Rightarrow> bool" where
  "impl_eq a b = (impl_data a = impl_data b \<and> impl_mapped_length a = impl_mapped_length b)"

subsection \<open>The members of the wrapper (mmap.hpp, lines 71 to 329)\<close>

text \<open>\<^verbatim>\<open>impl_type impl_;\<close> is the only data member.\<close>

record basic_mmap =
  impl :: mapped_region

text \<open>\<^verbatim>\<open>basic_mmap() = default;\<close>\<close>

definition default_mmap :: basic_mmap where
  "default_mmap = \<lparr>impl = unmapped_region\<rparr>"

text \<open>\<^verbatim>\<open>handle_type file_handle() const noexcept { return impl_.file_handle(); }
handle_type mapping_handle() const noexcept { return impl_.mapping_handle(); }\<close>\<close>

definition file_handle :: "basic_mmap \<Rightarrow> int option" where
  "file_handle m = file_handle_of (impl m)"

definition mapping_handle :: "basic_mmap \<Rightarrow> int option" where
  "mapping_handle m = mapping_handle_of (impl m)"

text \<open>\<^verbatim>\<open>bool is_open() const noexcept { return impl_.is_open(); }
bool empty() const noexcept { return impl_.empty(); }\<close>\<close>

definition is_open :: "basic_mmap \<Rightarrow> bool" where
  "is_open m = impl_is_open (impl m)"


text \<open>\<^verbatim>\<open>size_type size() const noexcept { return char_size(impl_.length()); }
size_type length() const noexcept { return char_size(impl_.length()); }
size_type mapped_length() const noexcept { return char_size(impl_.mapped_length()); }
size_type offset() const noexcept { return char_size(impl_.offset()); }\<close>\<close>

definition size_m :: "nat \<Rightarrow> basic_mmap \<Rightarrow> size_type" where
  "size_m sizeof_CharT m = char_size sizeof_CharT (impl_length (impl m))"

definition length_m :: "nat \<Rightarrow> basic_mmap \<Rightarrow> size_type" where
  "length_m sizeof_CharT m = char_size sizeof_CharT (impl_length (impl m))"

definition mapped_length :: "nat \<Rightarrow> basic_mmap \<Rightarrow> size_type" where
  "mapped_length sizeof_CharT m = char_size sizeof_CharT (impl_mapped_length (impl m))"

definition offset :: "nat \<Rightarrow> basic_mmap \<Rightarrow> size_type" where
  "offset sizeof_CharT m = char_size sizeof_CharT (impl_offset (impl m))"

text \<open>\<^verbatim>\<open>const_pointer data() const noexcept { return impl_.data(); }\<close>\<close>

definition data :: "basic_mmap \<Rightarrow> nat option" where
  "data m = impl_data (impl m)"

text \<open>
  \<^verbatim>\<open>void set_length(const size_type length) noexcept { impl_.set_length(byte_size(length)); }
void set_offset(const size_type offset) noexcept { impl_.set_offset(byte_size(offset)); }\<close>
  Both are declared \<open>noexcept\<close> and return \<open>void\<close>: an exception that leaves
  \<open>impl_.set_length\<close> cannot pass, the program is terminated.
\<close>

definition set_length :: "nat \<Rightarrow> size_type \<Rightarrow> basic_mmap \<Rightarrow> basic_mmap outcome" where
  "set_length sizeof_CharT len m =
     (case impl_set_length (byte_size sizeof_CharT len) (impl m) of
        Inl e \<Rightarrow> Terminates
      | Inr s \<Rightarrow> Returns (m\<lparr>impl := s\<rparr>))"

definition set_offset :: "nat \<Rightarrow> size_type \<Rightarrow> basic_mmap \<Rightarrow> basic_mmap outcome" where
  "set_offset sizeof_CharT off m =
     (case impl_set_offset (byte_size sizeof_CharT off) (impl m) of
        Inl e \<Rightarrow> Terminates
      | Inr s \<Rightarrow> Returns (m\<lparr>impl := s\<rparr>))"

text \<open>
  \<^verbatim>\<open>template<typename String>
void map(const String& path, const size_type offset,
    const size_type num_bytes, std::error_code& error)
{ impl_.map(path, offset, num_bytes, AccessMode, error); }\<close>
  The result pairs the kernel and the instance after the call with the value of
  \<open>error\<close>.
\<close>

definition map_path ::
  "os \<Rightarrow> access_mode \<Rightarrow> string \<Rightarrow> size_type \<Rightarrow> size_type \<Rightarrow> kernel \<Rightarrow> basic_mmap
     \<Rightarrow> (kernel \<times> basic_mmap) \<times> error_code" where
  "map_path sys AccessMode path off num_bytes k m =
     (case impl_map_path sys AccessMode path off num_bytes k (impl m) of
        ((k', s'), error) \<Rightarrow> ((k', m\<lparr>impl := s'\<rparr>), error))"

text \<open>
  \<^verbatim>\<open>void map(const handle_type handle, const size_type offset,
    const size_type num_bytes, std::error_code& error)
{ impl_.map(handle, offset, num_bytes, AccessMode, error); }\<close>
\<close>

definition map_handle ::
  "os \<Rightarrow> access_mode \<Rightarrow> int \<Rightarrow> size_type \<Rightarrow> size_type \<Rightarrow> kernel \<Rightarrow> basic_mmap
     \<Rightarrow> (kernel \<times> basic_mmap) \<times> error_code" where
  "map_handle sys AccessMode handle off num_bytes k m =
     (case impl_map_handle sys AccessMode handle off num_bytes k (impl m) of
        ((k', s'), error) \<Rightarrow> ((k', m\<lparr>impl := s'\<rparr>), error))"

text \<open>\<^verbatim>\<open>void unmap() { impl_.unmap(); }\<close>\<close>

definition unmap :: "kernel \<Rightarrow> basic_mmap \<Rightarrow> kernel \<times> basic_mmap" where
  "unmap k m = (case impl_unmap k (impl m) of (k', s') \<Rightarrow> (k', m\<lparr>impl := s'\<rparr>))"

text \<open>\<^verbatim>\<open>friend bool operator==(const basic_mmap& a, const basic_mmap& b)
{ return a.impl_ == b.impl_; }\<close>\<close>

definition eq_mmap :: "basic_mmap \<Rightarrow> basic_mmap \<Rightarrow> bool" where
  "eq_mmap a b = impl_eq (impl a) (impl b)"

subsection \<open>The mapping constructors (mmap.hpp, lines 84 to 108)\<close>

text \<open>
  \<^verbatim>\<open>template<typename String>
basic_mmap(const String& path, const size_type offset, const size_type num_bytes)
{
    std::error_code error;
    map(path, offset, num_bytes, error);
    if(error) { throw error; }
}\<close>
  The members are default-initialised before the body runs. \<open>Throws e (k, m)\<close> holds
  the kernel and the instance as they are when the exception leaves the body.
\<close>

definition basic_mmap_from_path ::
  "os \<Rightarrow> access_mode \<Rightarrow> string \<Rightarrow> size_type \<Rightarrow> size_type \<Rightarrow> kernel
     \<Rightarrow> (kernel \<times> basic_mmap) outcome" where
  "basic_mmap_from_path sys AccessMode path off num_bytes k =
     (case map_path sys AccessMode path off num_bytes k default_mmap of
        (km, None) \<Rightarrow> Returns km
      | (km, Some error) \<Rightarrow> Throws (Thrown_error_code error) km)"

text \<open>
  \<^verbatim>\<open>basic_mmap(const handle_type handle, const size_type offset, const size_type num_bytes)
{
    std::error_code error;
    map(handle, offset, length, error);
    if(error) { throw error; }
}\<close>
  The third argument of \<open>map\<close> is \<open>length\<close>, not \<open>num_bytes\<close>. No parameter or
  variable of that name is in scope; the name denotes the member function \<open>length\<close>,
  which a compiler rejects as an argument of type \<open>size_type\<close>. The model gives the
  name the one value it can stand for, \<open>this->length()\<close> of the instance under
  construction. The parameter \<open>num_bytes\<close> is not used in the body. That
  \<open>num_bytes\<close> is unused is what the source gives; the outcome of the call is this
  reading of \<open>length\<close>, not a run of a compiled program.
\<close>

definition basic_mmap_from_handle ::
  "os \<Rightarrow> access_mode \<Rightarrow> nat \<Rightarrow> int \<Rightarrow> size_type \<Rightarrow> size_type \<Rightarrow> kernel
     \<Rightarrow> (kernel \<times> basic_mmap) outcome" where
  "basic_mmap_from_handle sys AccessMode sizeof_CharT handle off num_bytes k =
     (case map_handle sys AccessMode handle off (length_m sizeof_CharT default_mmap) k
             default_mmap of
        (km, None) \<Rightarrow> Returns km
      | (km, Some error) \<Rightarrow> Throws (Thrown_error_code error) km)"

subsection \<open>The factories (mmap.hpp, lines 369 to 406)\<close>

text \<open>
  A mapping token is a path-like string or a file handle; \<open>mmap.map(token, ...)\<close>
  resolves to the overload of \<open>map\<close> for the token's type.
\<close>

datatype mapping_token = Path string | Handle int

fun map_token ::
  "os \<Rightarrow> access_mode \<Rightarrow> mapping_token \<Rightarrow> size_type \<Rightarrow> size_type \<Rightarrow> kernel \<Rightarrow> basic_mmap
     \<Rightarrow> (kernel \<times> basic_mmap) \<times> error_code" where
  "map_token sys AccessMode (Path path) off num_bytes k m =
     map_path sys AccessMode path off num_bytes k m"
| "map_token sys AccessMode (Handle handle) off num_bytes k m =
     map_handle sys AccessMode handle off num_bytes k m"

text \<open>
  \<^verbatim>\<open>template<typename MMap, typename MappingToken>
MMap make_mmap(const MappingToken& token,
    int64_t offset, int64_t num_bytes, std::error_code& error)
{
    MMap mmap;
    mmap.map(token, offset, num_bytes, error);
    return mmap;
}\<close>
  The access mode stands for the type argument \<open>MMap\<close>. The \<open>int64_t\<close> parameters
  carry the same 64 bits as the \<open>size_type\<close> values passed to \<open>map\<close>.
\<close>

definition make_mmap ::
  "os \<Rightarrow> access_mode \<Rightarrow> mapping_token \<Rightarrow> size_type \<Rightarrow> size_type \<Rightarrow> kernel
     \<Rightarrow> ((kernel \<times> basic_mmap) \<times> error_code) outcome" where
  "make_mmap sys AccessMode token off num_bytes k =
     (let mmap = default_mmap;
          result = map_token sys AccessMode token off num_bytes k mmap
      in Returns result)"

text \<open>
  \<^verbatim>\<open>template<typename MappingToken>
mmap_source make_mmap_source(const MappingToken& token, mmap_source::size_type offset,
    mmap_source::size_type num_bytes, std::error_code& error)
{ return make_mmap<mmap_source>(token, offset, num_bytes, error); }\<close>
  with \<^verbatim>\<open>using mmap_source = basic_mmap_source<char>;\<close>, the read mode.
\<close>

definition make_mmap_source ::
  "os \<Rightarrow> mapping_token \<Rightarrow> size_type \<Rightarrow> size_type \<Rightarrow> kernel
     \<Rightarrow> ((kernel \<times> basic_mmap) \<times> error_code) outcome" where
  "make_mmap_source sys token off num_bytes k = make_mmap sys Read token off num_bytes k"

text \<open>
  \<^verbatim>\<open>template<typename MappingToken>
mmap_sink make_mmap_sink(const MappingToken& token, mmap_sink::size_type offset,
    mmap_sink::size_type num_bytes, std::error_code& error)
{ return make_mmap<mmap_sink>(token, offset, num_bytes, error); }\<close>
  with \<^verbatim>\<open>using mmap_sink = basic_mmap_sink<char>;\<close>, the write mode.
\<close>

definition make_mmap_sink ::
  "os \<Rightarrow> mapping_token \<Rightarrow> size_type \<Rightarrow> size_type \<Rightarrow> kernel
     \<Rightarrow> ((kernel \<times> basic_mmap) \<times> error_code) outcome" where
  "make_mmap_sink sys token off num_bytes k = make_mmap sys Write token off num_bytes k"

text \<open>
  The factories as the spec words them (section 4.4): default-construct the instance,
  call its \<open>map\<close> member with the same arguments, hand back the instance and the error
  value.
\<close>

definition default_construct_then_map ::
  "os \<Rightarrow> access_mode \<Rightarrow> mapping_token \<Rightarrow> size_type \<Rightarrow> size_type \<Rightarrow> kernel
     \<Rightarrow> (kernel \<times> basic_mmap) \<times> error_code" where
  "default_construct_then_map sys AccessMode token off num_bytes k =
     map_token sys AccessMode token off num_bytes k default_mmap"

subsection \<open>A concrete system for evaluation\<close>

text \<open>
  One file of 100 bytes, \<open>data.bin\<close>, that the file-opening service opens as handle 3;
  a caller may also hold the pre-opened handle 4 to the same file. Pages of 4096 bytes.
  The OS places a mapping of this file at address 196608 plus the aligned offset,
  whichever of the two handles is used.
\<close>

definition demo_os :: os where
  "demo_os =
     \<lparr>granularity = 4096,
      map_entire_file = - 1,
      open_file = (\<lambda>path mode. if path = ''data.bin'' then Some 3 else None),
      query_file_size = (\<lambda>h. if h = 3 then Some 100 else if h = 4 then Some 100 else None),
      mmap_call = (\<lambda>h off len mode.
         if h = 3 then Some (196608 + off) else if h = 4 then Some (196608 + off) else None)\<rparr>"

definition idle_kernel :: kernel where
  "idle_kernel = \<lparr>live_mappings = [], open_handles = []\<rparr>"

text \<open>An instance whose OS mapping is \<open>n\<close> bytes at address 196608, all requested.\<close>

definition demo_mapped :: "nat \<Rightarrow> basic_mmap" where
  "demo_mapped n =
     \<lparr>impl = \<lparr>data_ptr = Some 196608, length_bytes = of_nat n,
              mapped_length_bytes = of_nat n, offset_delta = 0, offset_bytes = 0,
              file_handle_of = Some 3, mapping_handle_of = Some 3,
              handle_is_internal = True\<rparr>\<rparr>"

section \<open>Element and byte conversions\<close>

lemma char_size_is_power_of_two_division:
  "char_size k n = n div 2 ^ (k - 1)"
  by (simp add: char_size_def drop_bit_eq_div)

lemma byte_size_is_power_of_two_multiple:
  "byte_size k n = n * 2 ^ (k - 1)"
  by (simp add: byte_size_def push_bit_eq_mult)

lemma char_size_one_byte: "char_size 1 n = n div 1"
  by (simp add: char_size_def)

lemma char_size_two_bytes: "char_size 2 n = n div 2"
  by (simp add: char_size_def drop_bit_eq_div)

lemma byte_size_one_byte: "byte_size 1 n = n * 1"
  by (simp add: byte_size_def)

lemma byte_size_two_bytes: "byte_size 2 n = n * 2"
  by (simp add: byte_size_def push_bit_eq_mult)

text \<open>Without overflow the left shift multiplies by a power of two.\<close>

lemma unat_byte_size:
  assumes "unat n * 2 ^ (sz - 1) < 2 ^ 64"
  shows "unat (byte_size sz n) = unat n * 2 ^ (sz - 1)"
proof -
  have "unat (byte_size sz n) = take_bit 64 (push_bit (sz - 1) (unat n))"
    by (simp add: byte_size_def unsigned_push_bit_eq)
  also have "\<dots> = push_bit (sz - 1) (unat n)"
    using assms by (intro take_bit_nat_eq_self) (simp add: push_bit_eq_mult)
  finally show ?thesis by (simp add: push_bit_eq_mult)
qed

lemma unat_char_size:
  "unat (char_size sz b) = unat b div 2 ^ (sz - 1)"
proof -
  have "unat (char_size sz b) = drop_bit (sz - 1) (unat b)"
    unfolding char_size_def by (rule unat_drop_bit_eq)
  then show ?thesis by (simp add: drop_bit_eq_div)
qed

text \<open>The two shifts undo each other as long as the left shift loses no bit, whatever
  the element size.\<close>

lemma char_size_byte_size:
  assumes "unat n * 2 ^ (sz - 1) < 2 ^ 64"
  shows "char_size sz (byte_size sz n) = n"
proof -
  have "unat (char_size sz (byte_size sz n)) = unat n"
    using assms by (simp add: unat_char_size unat_byte_size)
  then show ?thesis by (simp add: word_unat_eq_iff)
qed

text \<open>For one-byte and two-byte elements \<open>byte_size\<close> is the true byte count of every
  element count that fits a 64-bit length.\<close>

lemma byte_size_exact_one_or_two:
  fixes bound :: size_type
  assumes bytes: "sizeof_CharT = 1 \<or> sizeof_CharT = 2"
    and fits: "unat n * sizeof_CharT \<le> unat bound"
  shows "unat (byte_size sizeof_CharT n) = unat n * sizeof_CharT"
    and "char_size sizeof_CharT (byte_size sizeof_CharT n) = n"
proof -
  have pow: "(2::nat) ^ (sizeof_CharT - 1) = sizeof_CharT"
    using bytes by auto
  have "unat bound < 2 ^ 64"
    using unsigned_less [of bound] by simp
  with fits have "unat n * sizeof_CharT < 2 ^ 64"
    by linarith
  then have small: "unat n * 2 ^ (sizeof_CharT - 1) < 2 ^ 64"
    by (simp only: pow)
  show "unat (byte_size sizeof_CharT n) = unat n * sizeof_CharT"
    using unat_byte_size [OF small] by (simp only: pow)
  show "char_size sizeof_CharT (byte_size sizeof_CharT n) = n"
    by (rule char_size_byte_size [OF small])
qed

text \<open>
  Claim C1. The conversion from bytes to elements is division by \<open>sizeof(CharT)\<close> and
  the conversion back is multiplication by \<open>sizeof(CharT)\<close>, for every element type.
  The code shifts by \<open>sizeof(CharT) - 1\<close> instead, which is that division and that
  multiplication for one-byte and two-byte elements only. For a four-byte element
  (\<open>wchar_t\<close> on Linux, \<open>char32_t\<close>) 8 bytes are reported as 1 element, not 2, and
  1 element is converted to 8 bytes, not 4.
\<close>

theorem char_size_byte_size_four_byte_element:
  "char_size 4 8 = 1 \<and> (8 :: size_type) div 4 = 2
   \<and> byte_size 4 1 = 8 \<and> (1 :: size_type) * 4 = 4"
  by (simp add: char_size_def byte_size_def drop_bit_eq_div push_bit_eq_mult)

section \<open>Members by access mode\<close>

text \<open>
  Claim C3. In read mode no public member yields a mutable view of the mapped bytes.
  The non-const \<open>begin\<close> and the non-const \<open>operator[]\<close> carry no \<open>enable_if\<close>
  guard, so a read-mode instance offers both, each returning a mutable view, while the
  sibling accessors \<open>data\<close>, \<open>end\<close>, \<open>rbegin\<close>, \<open>rend\<close> and \<open>sync\<close> are removed.
\<close>

theorem read_mode_keeps_mutable_begin_and_index:
  "available Read Begin_mutable \<and> returns_mutable_view Begin_mutable
   \<and> available Read Index_mutable \<and> returns_mutable_view Index_mutable
   \<and> map (available Read) [Data_mutable, End_mutable, Rbegin_mutable, Rend_mutable, Sync]
       = [False, False, False, False, False]"
  by simp

section \<open>The conceptual length and offset\<close>

text \<open>
  For one-byte and two-byte elements an element count within the mapping is accepted and
  read back unchanged, by \<open>set_length\<close> and \<open>size\<close> as by \<open>set_offset\<close> and
  \<open>offset\<close>.
\<close>

lemma set_length_then_size:
  assumes bytes: "sizeof_CharT = 1 \<or> sizeof_CharT = 2"
    and "is_open m"
    and fits: "unat n * sizeof_CharT + unat (offset_delta (impl m))
           \<le> unat (mapped_length_bytes (impl m))"
  shows "\<exists>m'. set_length sizeof_CharT n m = Returns m' \<and> size_m sizeof_CharT m' = n"
proof -
  from fits have le: "unat n * sizeof_CharT \<le> unat (mapped_length_bytes (impl m))"
    by linarith
  have "\<not> unat (mapped_length_bytes (impl m))
      < unat (byte_size sizeof_CharT n) + unat (offset_delta (impl m))"
    using fits byte_size_exact_one_or_two(1) [OF bytes le] by linarith
  then show ?thesis
    using \<open>is_open m\<close> byte_size_exact_one_or_two(2) [OF bytes le]
    by (simp add: set_length_def impl_set_length_def size_m_def impl_length_def
        is_open_def impl_is_open_def)
qed

lemma set_offset_then_offset:
  assumes bytes: "sizeof_CharT = 1 \<or> sizeof_CharT = 2"
    and "is_open m"
    and le: "unat n * sizeof_CharT \<le> unat (mapped_length_bytes (impl m))"
  shows "\<exists>m'. set_offset sizeof_CharT n m = Returns m' \<and> offset sizeof_CharT m' = n"
proof -
  have "\<not> unat (mapped_length_bytes (impl m)) < unat (byte_size sizeof_CharT n)"
    using le byte_size_exact_one_or_two(1) [OF bytes le] by linarith
  then show ?thesis
    using \<open>is_open m\<close> byte_size_exact_one_or_two(2) [OF bytes le]
    by (simp add: set_offset_def impl_set_offset_def offset_def impl_offset_def
        is_open_def impl_is_open_def)
qed

text \<open>An accepted \<open>set_length\<close> changes the conceptual length and nothing else.\<close>

lemma set_length_changes_length_only:
  assumes "set_length sizeof_CharT n m = Returns m'"
  shows "impl m' = (impl m)\<lparr>length_bytes := byte_size sizeof_CharT n\<rparr>"
  using assms
  by (auto simp: set_length_def impl_set_length_def split: if_splits)

text \<open>
  Claim C4. A \<open>set_length\<close> beyond the mapping fails with an invalid-argument condition
  that the caller observes, the instance unchanged; within the mapping it changes the
  conceptual length only.
  The wrapper is \<open>noexcept\<close> and returns \<open>void\<close>: on a mapping of 10 one-byte
  elements \<open>set_length(11)\<close> ends the program instead of reporting anything. On a
  mapping of 16 bytes with four-byte elements \<open>set_length(3)\<close>, 12 bytes and within
  the mapping, is taken for 24 bytes and ends the program the same way.
\<close>

theorem set_length_failure_terminates:
  "set_length 1 11 (demo_mapped 10) = Terminates
   \<and> set_length 4 3 (demo_mapped 16) = Terminates
   \<and> byte_size 4 3 = 24
   \<and> (3 :: nat) * 4 + unat (offset_delta (impl (demo_mapped 16)))
        \<le> unat (mapped_length_bytes (impl (demo_mapped 16)))"
  by (simp add: set_length_def impl_set_length_def byte_size_def demo_mapped_def)

text \<open>
  Claim C5. \<open>set_length(n)\<close> followed by \<open>size()\<close> gives \<open>n\<close>, and
  \<open>set_offset(m)\<close> followed by \<open>offset()\<close> gives \<open>m\<close>, for every count within
  bounds.
  On a mapping of 16 bytes with four-byte elements, 4 elements fill the mapping exactly;
  \<open>set_length(4)\<close> and \<open>set_offset(4)\<close> take them for 32 bytes and end the program,
  and the size stays at \<open>16 >> 3 = 2\<close>.
\<close>

theorem four_byte_elements_in_bounds_rejected:
  "set_length 4 4 (demo_mapped 16) = Terminates
   \<and> set_offset 4 4 (demo_mapped 16) = Terminates
   \<and> byte_size 4 4 = 32
   \<and> (4 :: nat) * 4 + unat (offset_delta (impl (demo_mapped 16)))
        \<le> unat (mapped_length_bytes (impl (demo_mapped 16)))
   \<and> size_m 4 (demo_mapped 16) = 2"
  by (simp add: set_length_def set_offset_def impl_set_length_def impl_set_offset_def
      byte_size_def demo_mapped_def size_m_def char_size_def impl_length_def
      impl_is_open_def drop_bit_eq_div)

section \<open>Mapping\<close>

text \<open>A failed \<open>map\<close> of the primitive hands back the kernel and the instance it was
  given; a successful one leaves the instance mapped.\<close>

lemma impl_map_handle_failure:
  "impl_map_handle sys mode h off nb k s = (ks, Some e) \<Longrightarrow> ks = (k, s)"
  by (auto simp: impl_map_handle_def Let_def split: if_splits option.splits)


lemma impl_map_path_failure:
  "impl_map_path sys mode p off nb k s = (ks, Some e) \<Longrightarrow> ks = (k, s)"
  by (auto simp: impl_map_path_def split: option.splits prod.splits)


lemma map_token_failure:
  "map_token sys A t off nb k m = (km, Some e) \<Longrightarrow> km = (k, m)"
  by (cases t)
    (auto simp: map_path_def map_handle_def split: prod.splits
      dest: impl_map_path_failure impl_map_handle_failure)



lemma default_mmap_unmapped: "\<not> is_open default_mmap"
  by (simp add: is_open_def default_mmap_def impl_is_open_def unmapped_region_def)

lemmas map_eval =
  map_path_def map_handle_def impl_map_path_def impl_map_handle_def impl_unmap_def
  aligned_os_offset_def offset_delta_of_def os_map_length_def
  demo_os_def idle_kernel_def default_mmap_def unmapped_region_def






section \<open>Unmapping\<close>

text \<open>
  Claim C8. \<open>unmap\<close> is idempotent: on an unmapped instance it changes nothing; on a
  mapped instance it releases the OS mapping, after which \<open>is_open()\<close> is false and
  \<open>data()\<close> is null; a second \<open>unmap\<close> changes nothing more.
\<close>

theorem unmap_idempotent_and_releases:
  "unmap (fst (unmap k m)) (snd (unmap k m)) = unmap k m
   \<and> is_open (snd (unmap k m)) = False
   \<and> data (snd (unmap k m)) = None
   \<and> (\<not> is_open m \<longrightarrow> unmap k m = (k, m))
   \<and> (\<forall>p. data m = Some p \<longrightarrow>
        live_mappings (fst (unmap k m)) =
          remove1 (p - unat (offset_delta (impl m)), unat (mapped_length_bytes (impl m)))
            (live_mappings k))"
  by (auto simp: unmap_def impl_unmap_def is_open_def data_def impl_data_def impl_is_open_def
      unmapped_region_def split: option.splits)

theorem unmap_idempotent_and_releases_witness:
  "data (demo_mapped 10) = Some 196608
   \<and> unmap \<lparr>live_mappings = [(196608, 10)], open_handles = [3]\<rparr> (demo_mapped 10)
       = (idle_kernel, default_mmap)
   \<and> \<not> is_open default_mmap
   \<and> unmap idle_kernel default_mmap = (idle_kernel, default_mmap)
   \<and> data default_mmap = None"
proof -
  have mapped: "data (demo_mapped 10) = Some 196608"
    by (simp add: data_def impl_data_def demo_mapped_def)
  have released:
    "unmap \<lparr>live_mappings = [(196608, 10)], open_handles = [3]\<rparr> (demo_mapped 10)
       = (idle_kernel, default_mmap)"
    by (simp add: unmap_def impl_unmap_def demo_mapped_def idle_kernel_def default_mmap_def)
  show ?thesis
    using mapped released default_mmap_unmapped
      unmap_idempotent_and_releases
        [of "\<lparr>live_mappings = [(196608, 10)], open_handles = [3]\<rparr>" "demo_mapped 10"]
    by simp
qed

section \<open>The mapping constructors\<close>

text \<open>
  Claim C10. The constructor from a path throws exactly when \<open>map\<close> sets the error, and
  what it throws is the \<open>std::error_code\<close> value itself, which is no
  \<open>std::exception\<close>; the instance is then as default construction left it, unmapped,
  and the kernel as before. When \<open>map\<close> sets no error the constructor returns the
  mapped instance.
\<close>

theorem path_constructor_throws_error_code:
  assumes "map_path sys A p off nb k default_mmap = (km, error)"
  shows "(case error of
            None \<Rightarrow> basic_mmap_from_path sys A p off nb k = Returns km
          | Some e \<Rightarrow>
              basic_mmap_from_path sys A p off nb k
                = Throws (Thrown_error_code e) (k, default_mmap)
              \<and> derives_from_std_exception (Thrown_error_code e) = False
              \<and> is_open default_mmap = False)"
  using assms map_token_failure [of sys A "Path p" off nb k default_mmap km]
  by (auto simp: basic_mmap_from_path_def default_mmap_unmapped split: option.splits)

theorem path_constructor_throws_error_code_witness:
  "map_path demo_os Read ''missing.bin'' 0 10 idle_kernel default_mmap
     = ((idle_kernel, default_mmap), Some handle_open_failure)
   \<and> basic_mmap_from_path demo_os Read ''missing.bin'' 0 10 idle_kernel
     = Throws (Thrown_error_code handle_open_failure) (idle_kernel, default_mmap)
   \<and> map_path demo_os Read ''data.bin'' 200 10 idle_kernel default_mmap
     = ((idle_kernel, default_mmap), Some invalid_argument)
   \<and> basic_mmap_from_path demo_os Read ''data.bin'' 200 10 idle_kernel
     = Throws (Thrown_error_code invalid_argument) (idle_kernel, default_mmap)"
proof -
  have missing:
    "map_path demo_os Read ''missing.bin'' 0 10 idle_kernel default_mmap
       = ((idle_kernel, default_mmap), Some handle_open_failure)"
    by (simp add: map_eval)
  have beyond:
    "map_path demo_os Read ''data.bin'' 200 10 idle_kernel default_mmap
       = ((idle_kernel, default_mmap), Some invalid_argument)"
    by (simp add: map_eval)
  show ?thesis
    using missing beyond
      path_constructor_throws_error_code [OF missing]
      path_constructor_throws_error_code [OF beyond]
    by simp
qed

text \<open>The constructor from a handle gives the same result whatever \<open>num_bytes\<close> is.\<close>

lemma basic_mmap_from_handle_num_bytes_unused:
  "basic_mmap_from_handle sys A sz h off nb k = basic_mmap_from_handle sys A sz h off nb' k"
  by (simp add: basic_mmap_from_handle_def)

text \<open>
  Claim C2. A mapping constructed from a path and one constructed from a pre-opened handle
  to the same file, with the same offset and length, have equal \<open>data()\<close> and
  \<open>mapped_length()\<close>: the constructor from a handle maps the region that \<open>num_bytes\<close>
  gives.
  For bytes 0 to 10 of the 100-byte file the constructor from the path returns an instance
  at address 196608 with mapped length 10, and so does the \<open>map\<close> member called with
  the handle and \<open>num_bytes = 10\<close>. The constructor from the handle passes \<open>length\<close>
  in place of \<open>num_bytes\<close>, asks for 0 bytes and throws, the instance unmapped.
\<close>

theorem handle_constructor_ignores_num_bytes:
  "(case basic_mmap_from_path demo_os Read ''data.bin'' 0 10 idle_kernel of
      Returns (k, m) \<Rightarrow> (data m, mapped_length 1 m) = (Some 196608, 10)
    | Throws e km \<Rightarrow> False
    | Terminates \<Rightarrow> False)
   \<and> (case map_handle demo_os Read 4 0 10 idle_kernel default_mmap of
        ((k, m), error) \<Rightarrow> (data m, mapped_length 1 m, error) = (Some 196608, 10, None))
   \<and> length_m 1 default_mmap = 0
   \<and> basic_mmap_from_handle demo_os Read 1 4 0 10 idle_kernel
       = Throws (Thrown_error_code invalid_argument) (idle_kernel, default_mmap)
   \<and> (data default_mmap, mapped_length 1 default_mmap) = (None, 0)"
  by (simp add: basic_mmap_from_path_def basic_mmap_from_handle_def map_eval
      data_def mapped_length_def length_m_def impl_data_def impl_mapped_length_def
      impl_length_def impl_is_open_def char_size_def)

section \<open>The factories\<close>

text \<open>
  Claim C9. The factories \<open>make_mmap\<close>, \<open>make_mmap_source\<close> and \<open>make_mmap_sink\<close>
  never throw: each returns, and what it returns is the instance and the error value
  that default construction followed by \<open>map\<close> with the same arguments gives, in read
  mode for \<open>make_mmap_source\<close> and in write mode for \<open>make_mmap_sink\<close>.
\<close>

theorem factories_default_construct_then_map:
  "make_mmap sys A t off nb k = Returns (default_construct_then_map sys A t off nb k)
   \<and> make_mmap_source sys t off nb k
       = Returns (default_construct_then_map sys Read t off nb k)
   \<and> make_mmap_sink sys t off nb k
       = Returns (default_construct_then_map sys Write t off nb k)"
  by (simp add: make_mmap_def make_mmap_source_def make_mmap_sink_def
      default_construct_then_map_def)

end
